theory Spec2Isabelle
  imports Main
begin

section \<open>Data model\<close>

text \<open>
  A chat message is the dictionary \<^verbatim>\<open>{"role": role, "content": content}\<close> built in
  \<^verbatim>\<open>add_message_to_history\<close>. Python strings are modelled as \<^typ>\<open>string\<close>: one
  \<^typ>\<open>char\<close> stands for one character of the Python string, so that \<^const>\<open>length\<close>
  is \<^verbatim>\<open>len\<close>, \<^const>\<open>take\<close> is the slice \<^verbatim>\<open>s[:n]\<close> and \<open>@\<close> is \<^verbatim>\<open>+\<close>.
\<close>

record message =
  role :: string
  content :: string

text \<open>
  A row of the table \<^verbatim>\<open>conversations\<close>, as the backend returns it. The code reads the
  keys \<^verbatim>\<open>id\<close>, \<^verbatim>\<open>name\<close> and \<^verbatim>\<open>chat_history\<close> only; the timestamp columns are written
  by the adapter and never read back.
\<close>

record row =
  row_id :: string
  row_name :: string
  row_chat_history :: "message list"

text \<open>\<^verbatim>\<open>GeminiManager\<close>: the model handle (\<^verbatim>\<open>None\<close> until configured) and the flag.\<close>

record GeminiManager =
  model :: "string option"
  api_key_configured :: bool

text \<open>\<^verbatim>\<open>SupabaseManager\<close>: \<open>client\<close> tells whether \<^verbatim>\<open>self.client\<close> is set.\<close>

record SupabaseManager =
  client :: bool

text \<open>\<^verbatim>\<open>st.session_state\<close>, with the six keys of \<^verbatim>\<open>initialize_session_state\<close>.\<close>

record session_state =
  chat_history :: "message list"
  gemini_manager :: GeminiManager
  current_conversation_id :: "string option"
  supabase_manager :: SupabaseManager
  conversations :: "row list"
  needs_name_update :: bool

section \<open>The environment\<close>

text \<open>
  Every remote round trip of the persistence adapter is one \<^verbatim>\<open>.execute()\<close>. It either
  raises an exception (carried as its \<^verbatim>\<open>str(e)\<close>) or returns a result whose
  \<^verbatim>\<open>data\<close> is a list of rows.
\<close>

datatype db_answer = Raises string | Data "row list"

datatype db_request =
    Insert string "message list"
  | SelectAll
  | SelectById string
  | UpdateHistory "string option" "message list"
  | UpdateName "string option" string
  | Delete string

text \<open>
  An element of the response generator that \<^verbatim>\<open>generate_content(prompt, stream=True)\<close>
  returns: a chunk with its \<^verbatim>\<open>text\<close>, or an exception raised while the consumer asks
  for the next chunk or reads its text. The generator is a finite list of them; iteration
  past a \<open>Broken\<close> element never happens.
\<close>

datatype stream_item = Chunk string | Broken string

datatype gemini_answer = GenRaises string | GenStream "stream_item list"

text \<open>What the user sees: the calls of \<^verbatim>\<open>st.error\<close>, \<^verbatim>\<open>st.chat_message\<close> with
  \<^verbatim>\<open>st.markdown\<close>, and the updates of the placeholder of the streamed answer (with the
  typing cursor while the stream runs, without it at the end).\<close>

datatype ui_event =
    Error string
  | ChatMessage string string
  | Typing string
  | Final string

text \<open>The calls that reach the two adapters, in the order they are made.\<close>

datatype adapter_call =
    CreateConversation string "message list option"
  | LoadConversations
  | LoadConversation string
  | UpdateConversation "string option" "message list"
  | DeleteConversation string
  | GenerateConversationName "string option"
  | UpdateConversationName "string option" string
  | GenerateResponse string
  | DisplayStreamingResponse

text \<open>
  The world a controller operation runs in: the session state, the logs of what the
  operation did (\<open>ui\<close>, \<open>calls\<close>, and the requests sent to the two backends), and the
  answers of the backends. The \<open>n\<close>-th round trip to a backend receives the \<open>n\<close>-th
  answer, whatever it is: the code is verified against every behaviour of the backends.
\<close>

record world =
  st :: session_state
  ui :: "ui_event list"
  calls :: "adapter_call list"
  requests :: "db_request list"
  db_answers :: "nat \<Rightarrow> db_answer"
  gemini_requests :: "string list"
  gemini_answers :: "nat \<Rightarrow> gemini_answer"

definition st_error :: "string \<Rightarrow> world \<Rightarrow> world" where
  "st_error msg w = w\<lparr>ui := ui w @ [Error msg]\<rparr>"

definition called :: "adapter_call \<Rightarrow> world \<Rightarrow> world" where
  "called c w = w\<lparr>calls := calls w @ [c]\<rparr>"

definition execute :: "db_request \<Rightarrow> world \<Rightarrow> db_answer \<times> world" where
  "execute rq w = (db_answers w (length (requests w)), w\<lparr>requests := requests w @ [rq]\<rparr>)"

definition generate_content :: "string \<Rightarrow> world \<Rightarrow> gemini_answer \<times> world" where
  "generate_content prompt w =
     (gemini_answers w (length (gemini_requests w)),
      w\<lparr>gemini_requests := gemini_requests w @ [prompt]\<rparr>)"

section \<open>Persistence adapter (supabase\_functions.py)\<close>

definition SupabaseManager_create_conversation ::
  "string \<Rightarrow> message list option \<Rightarrow> world \<Rightarrow> row option \<times> world" where
  "SupabaseManager_create_conversation name hist w0 =
     (let w = called (CreateConversation name hist) w0 in
      if \<not> client (supabase_manager (st w)) then (None, w)
      else (case execute (Insert name (case hist of None \<Rightarrow> [] | Some h \<Rightarrow> h)) w of
              (Data (r # rs), w') \<Rightarrow> (Some r, w')
            | (Data [], w') \<Rightarrow> (None, w')
            | (Raises e, w') \<Rightarrow> (None, st_error (''Error creating conversation: '' @ e) w')))"

definition SupabaseManager_load_conversations :: "world \<Rightarrow> row list \<times> world" where
  "SupabaseManager_load_conversations w0 =
     (let w = called LoadConversations w0 in
      if \<not> client (supabase_manager (st w)) then ([], w)
      else (case execute SelectAll w of
              (Data rs, w') \<Rightarrow> (rs, w')
            | (Raises e, w') \<Rightarrow> ([], st_error (''Error loading conversations: '' @ e) w')))"

definition SupabaseManager_load_conversation :: "string \<Rightarrow> world \<Rightarrow> row option \<times> world" where
  "SupabaseManager_load_conversation conversation_id w0 =
     (let w = called (LoadConversation conversation_id) w0 in
      if \<not> client (supabase_manager (st w)) then (None, w)
      else (case execute (SelectById conversation_id) w of
              (Data (r # rs), w') \<Rightarrow> (Some r, w')
            | (Data [], w') \<Rightarrow> (None, w')
            | (Raises e, w') \<Rightarrow> (None, st_error (''Error loading conversation: '' @ e) w')))"

definition SupabaseManager_update_conversation ::
  "string option \<Rightarrow> message list \<Rightarrow> world \<Rightarrow> bool \<times> world" where
  "SupabaseManager_update_conversation conversation_id hist w0 =
     (let w = called (UpdateConversation conversation_id hist) w0 in
      if \<not> client (supabase_manager (st w)) then (False, w)
      else (case execute (UpdateHistory conversation_id hist) w of
              (Data rs, w') \<Rightarrow> (rs \<noteq> [], w')
            | (Raises e, w') \<Rightarrow> (False, st_error (''Error updating conversation: '' @ e) w')))"

definition SupabaseManager_delete_conversation :: "string \<Rightarrow> world \<Rightarrow> bool \<times> world" where
  "SupabaseManager_delete_conversation conversation_id w0 =
     (let w = called (DeleteConversation conversation_id) w0 in
      if \<not> client (supabase_manager (st w)) then (False, w)
      else (case execute (Delete conversation_id) w of
              (Data rs, w') \<Rightarrow> (True, w')
            | (Raises e, w') \<Rightarrow> (False, st_error (''Error deleting conversation: '' @ e) w')))"

text \<open>Python's \<^verbatim>\<open>str\<close> of a natural number, for the f-string \<^verbatim>\<open>f"New Chat {count}"\<close>.\<close>

definition digit_char :: "nat \<Rightarrow> char" where
  "digit_char d = ''0123456789'' ! d"

fun str_nat :: "nat \<Rightarrow> string" where
  "str_nat n = (if n < 10 then [digit_char n] else str_nat (n div 10) @ [digit_char (n mod 10)])"

declare str_nat.simps [simp del]

text \<open>
  \<^verbatim>\<open>if first_message:\<close> is Python truthiness: \<^verbatim>\<open>None\<close> and the empty string both take
  the \<^verbatim>\<open>else\<close> branch.
\<close>

definition SupabaseManager_generate_conversation_name ::
  "string option \<Rightarrow> world \<Rightarrow> string \<times> world" where
  "SupabaseManager_generate_conversation_name first_message w0 =
     (let w = called (GenerateConversationName first_message) w0 in
      case first_message of
        Some m \<Rightarrow>
          if m \<noteq> [] then ((if length m > 30 then take 30 m @ ''...'' else m), w)
          else (let (cs, w') = SupabaseManager_load_conversations w;
                    count = length cs + 1
                in (''New Chat '' @ str_nat count, w'))
      | None \<Rightarrow>
          (let (cs, w') = SupabaseManager_load_conversations w;
               count = length cs + 1
           in (''New Chat '' @ str_nat count, w')))"

definition SupabaseManager_update_conversation_name ::
  "string option \<Rightarrow> string \<Rightarrow> world \<Rightarrow> bool \<times> world" where
  "SupabaseManager_update_conversation_name conversation_id new_name w0 =
     (let w = called (UpdateConversationName conversation_id new_name) w0 in
      if \<not> client (supabase_manager (st w)) then (False, w)
      else (case execute (UpdateName conversation_id new_name) w of
              (Data rs, w') \<Rightarrow> (rs \<noteq> [], w')
            | (Raises e, w') \<Rightarrow>
                (False, st_error (''Error updating conversation name: '' @ e) w')))"

section \<open>Streaming response adapter (gemini\_functions.py)\<close>

text \<open>
  \<^verbatim>\<open>configure_api_key\<close>; \<open>raised\<close> is the exception that the Gemini client library
  raises while it is configured, if any.
\<close>

definition GeminiManager_configure_api_key ::
  "string \<Rightarrow> string option \<Rightarrow> GeminiManager \<Rightarrow> (bool \<times> string) \<times> GeminiManager" where
  "GeminiManager_configure_api_key api_key raised gm =
     (case raised of
        None \<Rightarrow> ((True, ''API Key configured successfully!''),
                 gm\<lparr>model := Some ''gemini-2.0-flash'', api_key_configured := True\<rparr>)
      | Some e \<Rightarrow> ((False, ''Error configuring API key: '' @ e),
                   gm\<lparr>api_key_configured := False\<rparr>))"

definition GeminiManager_generate_response ::
  "string \<Rightarrow> world \<Rightarrow> (stream_item list option \<times> string option) \<times> world" where
  "GeminiManager_generate_response prompt w0 =
     (let w = called (GenerateResponse prompt) w0 in
      if \<not> api_key_configured (gemini_manager (st w)) \<or> model (gemini_manager (st w)) = None
      then ((None, Some ''API key not configured''), w)
      else (case generate_content prompt w of
              (GenStream response, w') \<Rightarrow> ((Some response, None), w')
            | (GenRaises e, w') \<Rightarrow> ((None, Some (''Error generating response: '' @ e)), w')))"

text \<open>
  The \<^verbatim>\<open>for\<close> loop of \<^verbatim>\<open>display_streaming_response\<close> inside its \<^verbatim>\<open>try\<close>, with the
  accumulator \<^verbatim>\<open>full_response\<close>. The first equation is the normal end of the loop: the
  placeholder is redrawn without the cursor and the text is returned. The last equation is
  the \<^verbatim>\<open>except\<close> branch: the error is shown and the text accumulated so far is returned.
\<close>

fun streaming_loop :: "stream_item list \<Rightarrow> string \<Rightarrow> world \<Rightarrow> string \<times> world" where
  "streaming_loop [] full_response w = (full_response, w\<lparr>ui := ui w @ [Final full_response]\<rparr>)"
| "streaming_loop (Chunk t # rest) full_response w =
     (if t \<noteq> [] then
        streaming_loop rest (full_response @ t) (w\<lparr>ui := ui w @ [Typing (full_response @ t)]\<rparr>)
      else streaming_loop rest full_response w)"
| "streaming_loop (Broken e # rest) full_response w =
     (full_response, st_error (''Error in streaming response: '' @ e) w)"

text \<open>
  The generator argument is optional because \<^verbatim>\<open>generate_response\<close> returns \<^verbatim>\<open>None\<close> for
  it beside an error; iterating \<^verbatim>\<open>None\<close> raises a \<^verbatim>\<open>TypeError\<close> inside the \<^verbatim>\<open>try\<close>.
\<close>

definition GeminiManager_display_streaming_response ::
  "stream_item list option \<Rightarrow> world \<Rightarrow> string \<times> world" where
  "GeminiManager_display_streaming_response response_generator w0 =
     (let w = called DisplayStreamingResponse w0 in
      case response_generator of
        Some items \<Rightarrow> streaming_loop items [] w
      | None \<Rightarrow>
          ([], st_error (''Error in streaming response: 'NoneType' object is not iterable'') w))"

section \<open>Session controller (app.py)\<close>

text \<open>
  The session state that \<^verbatim>\<open>initialize_session_state\<close> builds when no key is set yet;
  \<open>has_client\<close> tells whether \<^verbatim>\<open>SupabaseManager()\<close> found its credentials and created
  a client.
\<close>

definition initialize_session_state :: "bool \<Rightarrow> session_state" where
  "initialize_session_state has_client =
     \<lparr>chat_history = [],
      gemini_manager = \<lparr>model = None, api_key_configured = False\<rparr>,
      current_conversation_id = None,
      supabase_manager = \<lparr>client = has_client\<rparr>,
      conversations = [],
      needs_name_update = False\<rparr>"

definition clear_chat_history :: "world \<Rightarrow> world" where
  "clear_chat_history w = w\<lparr>st := (st w)\<lparr>chat_history := []\<rparr>\<rparr>"

definition display_chat_message :: "string \<Rightarrow> string \<Rightarrow> world \<Rightarrow> world" where
  "display_chat_message r c w = w\<lparr>ui := ui w @ [ChatMessage r c]\<rparr>"

text \<open>\<^verbatim>\<open>if st.session_state.current_conversation_id:\<close> is truthiness again: the id must be
  neither \<^verbatim>\<open>None\<close> nor empty.\<close>

definition truthy :: "string option \<Rightarrow> bool" where
  "truthy x = (case x of None \<Rightarrow> False | Some s \<Rightarrow> s \<noteq> [])"

definition save_conversation :: "world \<Rightarrow> world" where
  "save_conversation w =
     (if truthy (current_conversation_id (st w))
      then snd (SupabaseManager_update_conversation
                  (current_conversation_id (st w)) (chat_history (st w)) w)
      else w)"

definition add_message_to_history :: "string \<Rightarrow> string \<Rightarrow> world \<Rightarrow> world" where
  "add_message_to_history r c w0 =
     (let w = w0\<lparr>st := (st w0)\<lparr>chat_history :=
                 chat_history (st w0) @ [\<lparr>role = r, content = c\<rparr>]\<rparr>\<rparr>
      in if truthy (current_conversation_id (st w)) then save_conversation w else w)"

definition load_conversations :: "world \<Rightarrow> world" where
  "load_conversations w =
     (let (cs, w') = SupabaseManager_load_conversations w
      in w'\<lparr>st := (st w')\<lparr>conversations := cs\<rparr>\<rparr>)"

text \<open>The parameter \<^verbatim>\<open>first_message\<close> of \<^verbatim>\<open>create_new_conversation\<close> is never used.\<close>

definition create_new_conversation :: "string option \<Rightarrow> world \<Rightarrow> world" where
  "create_new_conversation first_message w =
     (let (name, w1) = SupabaseManager_generate_conversation_name None w;
          (result, w2) = SupabaseManager_create_conversation name None w1
      in case result of
           Some r \<Rightarrow>
             load_conversations
               (w2\<lparr>st := (st w2)\<lparr>current_conversation_id := Some (row_id r),
                                  chat_history := [],
                                  needs_name_update := True\<rparr>\<rparr>)
         | None \<Rightarrow> w2)"

definition load_conversation :: "string \<Rightarrow> world \<Rightarrow> world" where
  "load_conversation conversation_id w =
     (let (result, w1) = SupabaseManager_load_conversation conversation_id w
      in case result of
           Some r \<Rightarrow>
             w1\<lparr>st := (st w1)\<lparr>current_conversation_id := Some conversation_id,
                                chat_history := row_chat_history r\<rparr>\<rparr>
         | None \<Rightarrow> w1)"

definition delete_conversation :: "string \<Rightarrow> world \<Rightarrow> world" where
  "delete_conversation conversation_id w =
     (let (ok, w1) = SupabaseManager_delete_conversation conversation_id w
      in if ok then
           load_conversations
             (if current_conversation_id (st w1) = Some conversation_id
              then w1\<lparr>st := (st w1)\<lparr>current_conversation_id := None, chat_history := []\<rparr>\<rparr>
              else w1)
         else w1)"

definition handle_user_input :: "string \<Rightarrow> world \<Rightarrow> world" where
  "handle_user_input prompt w =
     (if \<not> api_key_configured (gemini_manager (st w))
      then st_error ''Please enter your Gemini API key in the sidebar first.'' w
      else
        (let w1 = (if current_conversation_id (st w) = None
                   then create_new_conversation None w else w);
             w2 = (if needs_name_update (st w1) \<and> prompt \<noteq> [] then
                     (let (new_name, wa) =
                            SupabaseManager_generate_conversation_name (Some prompt) w1;
                          (renamed, wb) =
                            SupabaseManager_update_conversation_name
                              (current_conversation_id (st wa)) new_name wa
                      in load_conversations (wb\<lparr>st := (st wb)\<lparr>needs_name_update := False\<rparr>\<rparr>))
                   else w1);
             w3 = add_message_to_history ''user'' prompt w2;
             w4 = display_chat_message ''user'' prompt w3;
             ((response, error), w5) = GeminiManager_generate_response prompt w4;
             answer = (let (full_response, w6) =
                             GeminiManager_display_streaming_response response w5
                       in add_message_to_history ''assistant'' full_response w6)
         in case error of
              Some e \<Rightarrow>
                if e \<noteq> [] then add_message_to_history ''assistant'' e (st_error e w5)
                else answer
            | None \<Rightarrow> answer))"

text \<open>
  The end of \<^verbatim>\<open>render_chat_interface\<close>, the only place that calls
  \<^verbatim>\<open>handle_user_input\<close>: \<^verbatim>\<open>if prompt := st.chat_input(...): handle_user_input(prompt)\<close>.
  \<^verbatim>\<open>st.chat_input\<close> returns \<^verbatim>\<open>None\<close> until the user submits a text, and the test is
  truthiness, so an empty prompt is never passed on.
\<close>

definition chat_input :: "string option \<Rightarrow> world \<Rightarrow> world" where
  "chat_input submitted w =
     (case submitted of
        Some prompt \<Rightarrow> if prompt \<noteq> [] then handle_user_input prompt w else w
      | None \<Rightarrow> w)"

section \<open>Concrete sessions\<close>

text \<open>
  A world at the start of a run, with nothing logged yet, and the session of a user who
  has entered an API key. The concrete evaluations below start from them.
\<close>

definition fresh_world ::
  "session_state \<Rightarrow> (nat \<Rightarrow> db_answer) \<Rightarrow> (nat \<Rightarrow> gemini_answer) \<Rightarrow> world" where
  "fresh_world s d g =
     \<lparr>st = s, ui = [], calls = [], requests = [], db_answers = d,
      gemini_requests = [], gemini_answers = g\<rparr>"

definition ready_session :: session_state where
  "ready_session =
     (initialize_session_state True)
       \<lparr>gemini_manager :=
          snd (GeminiManager_configure_api_key ''key'' None
                 (gemini_manager (initialize_session_state True)))\<rparr>"

text \<open>
  Four situations used below. In each the user has configured the API key.
  \<^item> \<open>world_insert_fails\<close>: a conversation \<open>c1\<close> with one message is active; the backend
    answers the second request with a timeout and every other request with no rows;
  \<^item> \<open>world_backend_down\<close>: \<open>c1\<close> is active and every request to the backend raises;
  \<^item> \<open>world_stream_breaks\<close>: \<open>c1\<close> is active and the answer of the model breaks off
    after two fragments;
  \<^item> \<open>world_new_chat\<close>: no conversation is active and the backend lists no conversations
    at first; it accepts the insert, returns the new row \<open>c1\<close> and lists it from then
    on, and it rejects the rename (its fourth request).
\<close>

definition active_session :: session_state where
  "active_session =
     ready_session\<lparr>current_conversation_id := Some ''c1'',
                    chat_history := [\<lparr>role = ''user'', content = ''Hello''\<rparr>]\<rparr>"

definition world_insert_fails :: world where
  "world_insert_fails =
     fresh_world active_session
       (\<lambda>n. if n = 1 then Raises ''timeout'' else Data [])
       (\<lambda>n. GenStream [])"

definition world_backend_down :: world where
  "world_backend_down =
     fresh_world active_session (\<lambda>n. Raises ''connection lost'') (\<lambda>n. GenStream [])"

definition world_stream_breaks :: world where
  "world_stream_breaks =
     fresh_world active_session (\<lambda>n. Data [])
       (\<lambda>n. GenStream [Chunk ''Par'', Chunk ''tial'', Broken ''boom''])"

definition world_new_chat :: world where
  "world_new_chat =
     fresh_world ready_session
       (\<lambda>n. if n = 0 then Data []
            else if n = 3 then Raises ''rename rejected''
            else Data [\<lparr>row_id = ''c1'', row_name = ''New Chat 1'',
                        row_chat_history = []\<rparr>])
       (\<lambda>n. GenStream [Chunk ''Hi'', Chunk '' there''])"

section \<open>What each operation leaves alone\<close>

lemmas example_defs = fresh_world_def ready_session_def initialize_session_state_def
  GeminiManager_configure_api_key_def active_session_def world_insert_fails_def
  world_backend_down_def world_stream_breaks_def world_new_chat_def

lemmas adapter_defs =
  SupabaseManager_create_conversation_def SupabaseManager_load_conversations_def
  SupabaseManager_load_conversation_def SupabaseManager_update_conversation_def
  SupabaseManager_delete_conversation_def SupabaseManager_generate_conversation_name_def
  SupabaseManager_update_conversation_name_def GeminiManager_generate_response_def
  GeminiManager_display_streaming_response_def called_def execute_def st_error_def
  generate_content_def

lemmas controller_defs =
  handle_user_input_def create_new_conversation_def load_conversations_def
  load_conversation_def delete_conversation_def add_message_to_history_def
  save_conversation_def display_chat_message_def truthy_def chat_input_def

lemma called_frame [simp]:
  "st (called c w) = st w" "ui (called c w) = ui w" "requests (called c w) = requests w"
  "db_answers (called c w) = db_answers w"
  "gemini_requests (called c w) = gemini_requests w"
  "gemini_answers (called c w) = gemini_answers w"
  "calls (called c w) = calls w @ [c]"
  by (simp_all add: called_def)

lemma st_error_frame [simp]:
  "st (st_error e w) = st w" "ui (st_error e w) = ui w @ [Error e]"
  "requests (st_error e w) = requests w" "db_answers (st_error e w) = db_answers w"
  "gemini_requests (st_error e w) = gemini_requests w"
  "gemini_answers (st_error e w) = gemini_answers w"
  "calls (st_error e w) = calls w"
  by (simp_all add: st_error_def)

lemma create_conversation_frame [simp]:
  "st (snd (SupabaseManager_create_conversation name hist w)) = st w"
  "db_answers (snd (SupabaseManager_create_conversation name hist w)) = db_answers w"
  "gemini_requests (snd (SupabaseManager_create_conversation name hist w)) = gemini_requests w"
  "gemini_answers (snd (SupabaseManager_create_conversation name hist w)) = gemini_answers w"
  by (simp_all add: SupabaseManager_create_conversation_def execute_def Let_def
           split: prod.splits db_answer.splits list.splits)

lemma load_conversations_frame [simp]:
  "st (snd (SupabaseManager_load_conversations w)) = st w"
  "db_answers (snd (SupabaseManager_load_conversations w)) = db_answers w"
  "gemini_requests (snd (SupabaseManager_load_conversations w)) = gemini_requests w"
  "gemini_answers (snd (SupabaseManager_load_conversations w)) = gemini_answers w"
  by (simp_all add: SupabaseManager_load_conversations_def execute_def Let_def
           split: prod.splits db_answer.splits)

lemma load_conversation_frame [simp]:
  "st (snd (SupabaseManager_load_conversation cid w)) = st w"
  "db_answers (snd (SupabaseManager_load_conversation cid w)) = db_answers w"
  "gemini_requests (snd (SupabaseManager_load_conversation cid w)) = gemini_requests w"
  "gemini_answers (snd (SupabaseManager_load_conversation cid w)) = gemini_answers w"
  by (simp_all add: SupabaseManager_load_conversation_def execute_def Let_def
           split: prod.splits db_answer.splits list.splits)

lemma update_conversation_frame [simp]:
  "st (snd (SupabaseManager_update_conversation cid hist w)) = st w"
  "db_answers (snd (SupabaseManager_update_conversation cid hist w)) = db_answers w"
  "gemini_requests (snd (SupabaseManager_update_conversation cid hist w)) = gemini_requests w"
  "gemini_answers (snd (SupabaseManager_update_conversation cid hist w)) = gemini_answers w"
  by (simp_all add: SupabaseManager_update_conversation_def execute_def Let_def
           split: prod.splits db_answer.splits)

lemma delete_conversation_frame [simp]:
  "st (snd (SupabaseManager_delete_conversation cid w)) = st w"
  "db_answers (snd (SupabaseManager_delete_conversation cid w)) = db_answers w"
  "gemini_requests (snd (SupabaseManager_delete_conversation cid w)) = gemini_requests w"
  "gemini_answers (snd (SupabaseManager_delete_conversation cid w)) = gemini_answers w"
  by (simp_all add: SupabaseManager_delete_conversation_def execute_def Let_def
           split: prod.splits db_answer.splits)

lemma update_conversation_name_frame [simp]:
  "st (snd (SupabaseManager_update_conversation_name cid n w)) = st w"
  "db_answers (snd (SupabaseManager_update_conversation_name cid n w)) = db_answers w"
  "gemini_requests (snd (SupabaseManager_update_conversation_name cid n w)) = gemini_requests w"
  "gemini_answers (snd (SupabaseManager_update_conversation_name cid n w)) = gemini_answers w"
  by (simp_all add: SupabaseManager_update_conversation_name_def execute_def Let_def
           split: prod.splits db_answer.splits)

lemma generate_conversation_name_frame [simp]:
  "st (snd (SupabaseManager_generate_conversation_name m w)) = st w"
  "db_answers (snd (SupabaseManager_generate_conversation_name m w)) = db_answers w"
  "gemini_requests (snd (SupabaseManager_generate_conversation_name m w)) = gemini_requests w"
  "gemini_answers (snd (SupabaseManager_generate_conversation_name m w)) = gemini_answers w"
  by (simp_all add: SupabaseManager_generate_conversation_name_def Let_def case_prod_beta
           split: option.splits)

lemma streaming_loop_frame [simp]:
  "st (snd (streaming_loop items acc w)) = st w"
  "calls (snd (streaming_loop items acc w)) = calls w"
  "requests (snd (streaming_loop items acc w)) = requests w"
  "db_answers (snd (streaming_loop items acc w)) = db_answers w"
  "gemini_requests (snd (streaming_loop items acc w)) = gemini_requests w"
  "gemini_answers (snd (streaming_loop items acc w)) = gemini_answers w"
  by (induction items acc w rule: streaming_loop.induct) simp_all

lemma display_streaming_response_frame [simp]:
  "st (snd (GeminiManager_display_streaming_response g w)) = st w"
  by (simp add: GeminiManager_display_streaming_response_def Let_def split: option.splits)

lemma generate_response_frame [simp]:
  "st (snd (GeminiManager_generate_response p w)) = st w"
  by (simp add: GeminiManager_generate_response_def generate_content_def Let_def
           split: prod.splits gemini_answer.splits)

lemma save_conversation_frame [simp]:
  "st (save_conversation w) = st w"
  "db_answers (save_conversation w) = db_answers w"
  "gemini_requests (save_conversation w) = gemini_requests w"
  "gemini_answers (save_conversation w) = gemini_answers w"
  by (simp_all add: save_conversation_def)

lemma add_message_to_history_frame [simp]:
  "st (add_message_to_history r c w) =
     (st w)\<lparr>chat_history := chat_history (st w) @ [\<lparr>role = r, content = c\<rparr>]\<rparr>"
  "db_answers (add_message_to_history r c w) = db_answers w"
  "gemini_requests (add_message_to_history r c w) = gemini_requests w"
  "gemini_answers (add_message_to_history r c w) = gemini_answers w"
  by (simp_all add: add_message_to_history_def Let_def)

lemma load_conversations_ctl_frame [simp]:
  "st (load_conversations w) =
     (st w)\<lparr>conversations := fst (SupabaseManager_load_conversations w)\<rparr>"
  "db_answers (load_conversations w) = db_answers w"
  "gemini_requests (load_conversations w) = gemini_requests w"
  "gemini_answers (load_conversations w) = gemini_answers w"
  by (simp_all add: load_conversations_def case_prod_beta)

lemma display_chat_message_frame [simp]:
  "st (display_chat_message r c w) = st w"
  "db_answers (display_chat_message r c w) = db_answers w"
  "gemini_requests (display_chat_message r c w) = gemini_requests w"
  "gemini_answers (display_chat_message r c w) = gemini_answers w"
  by (simp_all add: display_chat_message_def)

lemma create_new_conversation_frame [simp]:
  "gemini_manager (st (create_new_conversation fm w)) = gemini_manager (st w)"
  "supabase_manager (st (create_new_conversation fm w)) = supabase_manager (st w)"
  "db_answers (create_new_conversation fm w) = db_answers w"
  "gemini_requests (create_new_conversation fm w) = gemini_requests w"
  "gemini_answers (create_new_conversation fm w) = gemini_answers w"
  by (simp_all add: create_new_conversation_def case_prod_beta split: option.splits)

lemma load_conversations_result_cong:
  "supabase_manager s = supabase_manager (st w) \<Longrightarrow>
   fst (SupabaseManager_load_conversations (w\<lparr>st := s\<rparr>)) =
   fst (SupabaseManager_load_conversations w)"
  by (simp add: SupabaseManager_load_conversations_def called_def execute_def Let_def
        split: db_answer.splits)

lemma load_conversations_result_called:
  "fst (SupabaseManager_load_conversations (called c w)) =
   fst (SupabaseManager_load_conversations w)"
  by (simp add: SupabaseManager_load_conversations_def execute_def Let_def
        split: db_answer.splits)

lemma load_conversations_calls [simp]:
  "calls (snd (SupabaseManager_load_conversations w)) = calls w @ [LoadConversations]"
  by (simp add: SupabaseManager_load_conversations_def execute_def Let_def
        split: db_answer.splits)

lemma load_conversations_ctl_calls [simp]:
  "calls (load_conversations w) = calls w @ [LoadConversations]"
  by (simp add: load_conversations_def case_prod_beta)

lemma delete_conversation_calls [simp]:
  "calls (snd (SupabaseManager_delete_conversation cid w)) = calls w @ [DeleteConversation cid]"
  by (simp add: SupabaseManager_delete_conversation_def execute_def Let_def
        split: db_answer.splits)

lemma update_conversation_ui:
  "x \<in> set (ui w) \<Longrightarrow> x \<in> set (ui (snd (SupabaseManager_update_conversation cid h w)))"
  by (simp add: SupabaseManager_update_conversation_def execute_def Let_def
        split: db_answer.splits)

lemma add_message_to_history_ui:
  "x \<in> set (ui w) \<Longrightarrow> x \<in> set (ui (add_message_to_history r c w))"
  by (simp add: add_message_to_history_def save_conversation_def Let_def update_conversation_ui)

section \<open>Consuming the token stream\<close>

lemma streaming_loop_chunks:
  "fst (streaming_loop (map Chunk fs) acc w) = acc @ concat fs"
  by (induction fs arbitrary: acc w) simp_all

lemma streaming_loop_broken:
  "fst (streaming_loop (map Chunk fs @ Broken e # rest) acc w) = acc @ concat fs
   \<and> Error (''Error in streaming response: '' @ e)
        \<in> set (ui (snd (streaming_loop (map Chunk fs @ Broken e # rest) acc w)))"
  by (induction fs arbitrary: acc w) simp_all

text \<open>
  C8. For every finite sequence of fragments that ends normally, consuming the stream
  returns the concatenation of the fragments in arrival order (empty fragments included:
  the loop skips them, and they add nothing); the fragments \<open>Hel\<close>, \<open>lo, \<close>, \<open>world\<close>
  give \<open>Hello, world\<close>.
\<close>

theorem display_streaming_response_concat:
  "fst (GeminiManager_display_streaming_response (Some (map Chunk fs)) w) = concat fs
   \<and> fst (GeminiManager_display_streaming_response
            (Some [Chunk ''Hel'', Chunk ''lo, '', Chunk ''world'']) w) = ''Hello, world''"
proof -
  have g: "fst (GeminiManager_display_streaming_response (Some (map Chunk gs)) w) = concat gs"
    for gs
    by (simp add: GeminiManager_display_streaming_response_def Let_def streaming_loop_chunks)
  from g [of "[''Hel'', ''lo, '', ''world'']"] g [of fs] show ?thesis by simp
qed

theorem display_streaming_response_concat_witness:
  "fst (GeminiManager_display_streaming_response
          (Some [Chunk ''Hel'', Chunk [], Chunk ''lo'']) world_stream_breaks) = ''Hello''"
  using display_streaming_response_concat [of "[''Hel'', [], ''lo'']" world_stream_breaks]
  by simp

text \<open>
  C1 (amended). If the stream breaks after the fragments \<open>fs\<close> have been received, the
  assistant message that \<^verbatim>\<open>handle_user_input\<close> appends to the chat history has the text
  accumulated so far, the concatenation of \<open>fs\<close>, as its content; the error text is shown
  to the user through \<^verbatim>\<open>st.error\<close> and is not what is appended.
\<close>

theorem mid_stream_failure_appends_partial_text:
  assumes "api_key_configured (gemini_manager (st w))"
      and "model (gemini_manager (st w)) \<noteq> None"
      and "gemini_answers w (length (gemini_requests w)) =
             GenStream (map Chunk fs @ Broken e # rest)"
  shows "last (chat_history (st (handle_user_input prompt w))) =
           \<lparr>role = ''assistant'', content = concat fs\<rparr>
       \<and> Error (''Error in streaming response: '' @ e) \<in> set (ui (handle_user_input prompt w))"
proof -
  define w1 where "w1 = (if current_conversation_id (st w) = None
                   then create_new_conversation None w else w)"
  define w2 where "w2 = (if needs_name_update (st w1) \<and> prompt \<noteq> [] then
                     (let (new_name, wa) =
                            SupabaseManager_generate_conversation_name (Some prompt) w1;
                          (renamed, wb) =
                            SupabaseManager_update_conversation_name
                              (current_conversation_id (st wa)) new_name wa
                      in load_conversations (wb\<lparr>st := (st wb)\<lparr>needs_name_update := False\<rparr>\<rparr>))
                   else w1)"
  define w4 where
    "w4 = display_chat_message ''user'' prompt (add_message_to_history ''user'' prompt w2)"
  define w5 where "w5 = (called (GenerateResponse prompt) w4)
                          \<lparr>gemini_requests := gemini_requests w4 @ [prompt]\<rparr>"
  define items where "items = map Chunk fs @ Broken e # rest"
  define w6 where "w6 = snd (streaming_loop items [] (called DisplayStreamingResponse w5))"
  have g: "gemini_manager (st w4) = gemini_manager (st w)"
    "gemini_requests w4 = gemini_requests w" "gemini_answers w4 = gemini_answers w"
    unfolding w4_def w2_def w1_def by (simp_all add: case_prod_beta Let_def)
  have gen: "GeminiManager_generate_response prompt w4 = ((Some items, None), w5)"
    using assms g
    by (auto simp add: GeminiManager_generate_response_def generate_content_def Let_def
          w5_def items_def called_def)
  have disp: "GeminiManager_display_streaming_response (Some items) w5 = (concat fs, w6)"
    using streaming_loop_broken [of fs e rest "[]" "called DisplayStreamingResponse w5"]
    by (simp add: GeminiManager_display_streaming_response_def Let_def w6_def items_def
          prod_eq_iff)
  have err: "Error (''Error in streaming response: '' @ e) \<in> set (ui w6)"
    using streaming_loop_broken [of fs e rest "[]" "called DisplayStreamingResponse w5"]
    by (simp add: w6_def items_def)
  have out: "handle_user_input prompt w = add_message_to_history ''assistant'' (concat fs) w6"
    using assms(1) gen disp
    by (simp add: handle_user_input_def Let_def w4_def [symmetric] w2_def [symmetric]
          w1_def [symmetric])
  show ?thesis
    using err by (simp add: out add_message_to_history_ui)
qed

theorem mid_stream_failure_appends_partial_text_witness:
  "api_key_configured (gemini_manager (st world_stream_breaks))
   \<and> model (gemini_manager (st world_stream_breaks)) \<noteq> None
   \<and> gemini_answers world_stream_breaks (length (gemini_requests world_stream_breaks)) =
       GenStream (map Chunk [''Par'', ''tial''] @ Broken ''boom'' # [])
   \<and> last (chat_history (st (handle_user_input ''Hi'' world_stream_breaks))) =
       \<lparr>role = ''assistant'', content = ''Partial''\<rparr>
   \<and> Error ''Error in streaming response: boom''
       \<in> set (ui (handle_user_input ''Hi'' world_stream_breaks))"
proof -
  have a: "api_key_configured (gemini_manager (st world_stream_breaks))"
    and b: "model (gemini_manager (st world_stream_breaks)) \<noteq> None"
    and c: "gemini_answers world_stream_breaks (length (gemini_requests world_stream_breaks)) =
              GenStream (map Chunk [''Par'', ''tial''] @ Broken ''boom'' # [])"
    by (simp_all add: example_defs)
  from a b c mid_stream_failure_appends_partial_text [OF a b c, of "''Hi''"]
  show ?thesis by simp
qed

text \<open>
  The claim as written fails: after the fragments \<open>Par\<close> and \<open>tial\<close> and a failure
  \<open>boom\<close>, the appended assistant message is \<open>Partial\<close>, which is neither the error text
  shown to the user nor the text of the exception.
\<close>

theorem mid_stream_failure_content_is_not_error_text:
  "chat_history (st (handle_user_input ''Hi'' world_stream_breaks)) =
     [\<lparr>role = ''user'', content = ''Hello''\<rparr>,
      \<lparr>role = ''user'', content = ''Hi''\<rparr>,
      \<lparr>role = ''assistant'', content = ''Partial''\<rparr>]
   \<and> content (last (chat_history (st (handle_user_input ''Hi'' world_stream_breaks))))
       \<noteq> ''Error in streaming response: boom''
   \<and> content (last (chat_history (st (handle_user_input ''Hi'' world_stream_breaks))))
       \<noteq> ''boom''"
  by (simp add: example_defs controller_defs adapter_defs Let_def)

section \<open>Submitting a message\<close>

text \<open>
  C2. If the streaming response adapter is not configured (its flag
  \<^verbatim>\<open>api_key_configured\<close> is false), \<^verbatim>\<open>handle_user_input\<close> reports the not-configured
  error and changes nothing else: the session state as a whole, and with it the chat
  history, the current conversation id, the rename flag and the cached conversation list,
  is as before, and no call reaches an adapter or a backend.
\<close>

theorem handle_user_input_unconfigured_mutates_nothing:
  assumes "\<not> api_key_configured (gemini_manager (st w))"
  shows "ui (handle_user_input prompt w) =
           ui w @ [Error ''Please enter your Gemini API key in the sidebar first.'']
       \<and> st (handle_user_input prompt w) = st w
       \<and> chat_history (st (handle_user_input prompt w)) = chat_history (st w)
       \<and> current_conversation_id (st (handle_user_input prompt w)) =
           current_conversation_id (st w)
       \<and> needs_name_update (st (handle_user_input prompt w)) = needs_name_update (st w)
       \<and> conversations (st (handle_user_input prompt w)) = conversations (st w)
       \<and> calls (handle_user_input prompt w) = calls w
       \<and> requests (handle_user_input prompt w) = requests w
       \<and> gemini_requests (handle_user_input prompt w) = gemini_requests w"
  using assms by (simp add: handle_user_input_def)

theorem handle_user_input_unconfigured_mutates_nothing_witness:
  "\<not> api_key_configured (gemini_manager (st (fresh_world (initialize_session_state True)
        (\<lambda>n. Data []) (\<lambda>n. GenStream [Chunk ''Hi'']))))
   \<and> chat_history (st (handle_user_input ''Hello''
        (fresh_world (initialize_session_state True)
           (\<lambda>n. Data []) (\<lambda>n. GenStream [Chunk ''Hi''])))) = []
   \<and> calls (handle_user_input ''Hello''
        (fresh_world (initialize_session_state True)
           (\<lambda>n. Data []) (\<lambda>n. GenStream [Chunk ''Hi'']))) = []
   \<and> ui (handle_user_input ''Hello''
        (fresh_world (initialize_session_state True)
           (\<lambda>n. Data []) (\<lambda>n. GenStream [Chunk ''Hi'']))) =
       [Error ''Please enter your Gemini API key in the sidebar first.'']"
  using handle_user_input_unconfigured_mutates_nothing
          [of "fresh_world (initialize_session_state True)
                 (\<lambda>n. Data []) (\<lambda>n. GenStream [Chunk ''Hi''])" "''Hello''"]
  by (simp add: example_defs)

lemma handle_user_input_clears_flag:
  assumes "api_key_configured (gemini_manager (st w))" and "prompt \<noteq> []"
  shows "\<not> needs_name_update (st (handle_user_input prompt w))"
  using assms
  by (simp add: handle_user_input_def Let_def case_prod_beta split: option.splits)

lemma create_new_conversation_sets_flag:
  assumes "fst (SupabaseManager_create_conversation
                  (fst (SupabaseManager_generate_conversation_name None w)) None
                  (snd (SupabaseManager_generate_conversation_name None w))) = Some r"
  shows "needs_name_update (st (create_new_conversation fm w))"
  using assms by (simp add: create_new_conversation_def case_prod_beta)

text \<open>
  C5. When the adapter's \<^verbatim>\<open>create_conversation\<close> returns a record, the flag
  \<^verbatim>\<open>needs_name_update\<close> is true right after \<^verbatim>\<open>create_new_conversation\<close>; and after the
  first \<^verbatim>\<open>handle_user_input\<close> on that conversation, with the adapter configured, the flag
  is false, whatever the backend answers to the rename. The prompt is not empty: the chat
  input, the only caller of \<^verbatim>\<open>handle_user_input\<close>, passes no other. The last part says
  the same through that caller, for every value of the chat input that leads to a call.
\<close>

theorem needs_name_update_cleared_by_first_message:
  assumes "fst (SupabaseManager_create_conversation
                  (fst (SupabaseManager_generate_conversation_name None w)) None
                  (snd (SupabaseManager_generate_conversation_name None w))) = Some r"
  shows "needs_name_update (st (create_new_conversation first_message w))
       \<and> (api_key_configured (gemini_manager (st w)) \<and> prompt \<noteq> [] \<longrightarrow>
            \<not> needs_name_update
                (st (handle_user_input prompt (create_new_conversation first_message w))))
       \<and> (api_key_configured (gemini_manager (st w)) \<and> truthy submitted \<longrightarrow>
            \<not> needs_name_update
                (st (chat_input submitted (create_new_conversation first_message w))))"
proof -
  let ?w1 = "create_new_conversation first_message w"
  have created: "needs_name_update (st ?w1)"
    by (rule create_new_conversation_sets_flag [OF assms])
  have cleared: "\<not> needs_name_update (st (handle_user_input p ?w1))"
    if "api_key_configured (gemini_manager (st w))" and "p \<noteq> []" for p
    using that handle_user_input_clears_flag [of ?w1 p] by simp
  have through_caller: "\<not> needs_name_update (st (chat_input submitted ?w1))"
    if "api_key_configured (gemini_manager (st w))" and "truthy submitted"
  proof (cases submitted)
    case None
    with that show ?thesis by (simp add: truthy_def)
  next
    case (Some p)
    with that have "p \<noteq> []" by (simp add: truthy_def)
    with that Some cleared [of p] show ?thesis by (simp add: chat_input_def)
  qed
  from created cleared [of prompt] through_caller show ?thesis by blast
qed

theorem needs_name_update_cleared_by_first_message_witness:
  "fst (SupabaseManager_create_conversation
          (fst (SupabaseManager_generate_conversation_name None world_new_chat)) None
          (snd (SupabaseManager_generate_conversation_name None world_new_chat))) =
     Some \<lparr>row_id = ''c1'', row_name = ''New Chat 1'', row_chat_history = []\<rparr>
   \<and> api_key_configured (gemini_manager (st world_new_chat)) \<and> ''Hello'' \<noteq> []
   \<and> truthy (Some ''Hello'')
   \<and> needs_name_update (st (create_new_conversation None world_new_chat))
   \<and> \<not> needs_name_update
         (st (handle_user_input ''Hello'' (create_new_conversation None world_new_chat)))
   \<and> \<not> needs_name_update
         (st (chat_input (Some ''Hello'') (create_new_conversation None world_new_chat)))"
proof -
  have h: "fst (SupabaseManager_create_conversation
          (fst (SupabaseManager_generate_conversation_name None world_new_chat)) None
          (snd (SupabaseManager_generate_conversation_name None world_new_chat))) =
     Some \<lparr>row_id = ''c1'', row_name = ''New Chat 1'', row_chat_history = []\<rparr>"
    by (simp add: example_defs adapter_defs Let_def)
  have c: "api_key_configured (gemini_manager (st world_new_chat))"
    by (simp add: example_defs)
  have t: "truthy (Some ''Hello'')" by (simp add: truthy_def)
  from h c t
    needs_name_update_cleared_by_first_message [OF h, of None "''Hello''" "Some ''Hello''"]
  show ?thesis by simp
qed

section \<open>Naming a conversation\<close>

text \<open>
  C3 (amended). For a non-empty first message, \<^verbatim>\<open>generate_conversation_name\<close> returns
  its first 30 characters followed by \<open>...\<close> when it is longer than 30 characters, and the
  message itself otherwise; the empty string is treated as no message at all and gives the
  placeholder name.
\<close>

theorem generate_conversation_name_from_message:
  "(m \<noteq> [] \<longrightarrow>
      fst (SupabaseManager_generate_conversation_name (Some m) w) =
        (if length m > 30 then take 30 m @ ''...'' else m))
   \<and> fst (SupabaseManager_generate_conversation_name (Some []) w) =
       fst (SupabaseManager_generate_conversation_name None w)"
  by (simp add: SupabaseManager_generate_conversation_name_def Let_def case_prod_beta
        SupabaseManager_load_conversations_def execute_def split: db_answer.splits)

theorem generate_conversation_name_from_message_witness:
  "''Hello there, how are you today friend'' \<noteq> []
   \<and> fst (SupabaseManager_generate_conversation_name
            (Some ''Hello there, how are you today friend'') world_new_chat)
       = ''Hello there, how are you today...''
   \<and> fst (SupabaseManager_generate_conversation_name (Some ''Hi'') world_new_chat) = ''Hi''
   \<and> fst (SupabaseManager_generate_conversation_name
            (Some ''123456789012345678901234567890'') world_new_chat)
       = ''123456789012345678901234567890''"
  using generate_conversation_name_from_message
          [of "''Hello there, how are you today friend''" world_new_chat]
        generate_conversation_name_from_message [of "''Hi''" world_new_chat]
        generate_conversation_name_from_message
          [of "''123456789012345678901234567890''" world_new_chat]
  by simp

text \<open>
  The claim as written fails for the empty string: the name is the placeholder, not the
  empty text.
\<close>

theorem generate_conversation_name_empty_message:
  "fst (SupabaseManager_generate_conversation_name (Some []) world_new_chat) = ''New Chat 1''
   \<and> fst (SupabaseManager_generate_conversation_name (Some []) world_new_chat) \<noteq> []"
  by (simp add: example_defs adapter_defs Let_def str_nat.simps digit_char_def)

text \<open>
  C4. Without a first message, \<^verbatim>\<open>generate_conversation_name\<close> returns \<open>New Chat \<close>
  followed by the decimal form of \<open>k + 1\<close>, where \<open>k\<close> is the number of conversations that
  \<^verbatim>\<open>load_conversations\<close> reports at that moment: \<open>New Chat 1\<close> when it reports none and
  \<open>New Chat 2\<close> when it reports one.
\<close>

theorem generate_conversation_name_placeholder:
  "fst (SupabaseManager_generate_conversation_name None w) =
     ''New Chat '' @ str_nat (length (fst (SupabaseManager_load_conversations w)) + 1)
   \<and> (length (fst (SupabaseManager_load_conversations w)) = 0 \<longrightarrow>
        fst (SupabaseManager_generate_conversation_name None w) = ''New Chat 1'')
   \<and> (length (fst (SupabaseManager_load_conversations w)) = 1 \<longrightarrow>
        fst (SupabaseManager_generate_conversation_name None w) = ''New Chat 2'')"
proof -
  have name: "fst (SupabaseManager_generate_conversation_name None w) =
     ''New Chat '' @ str_nat (length (fst (SupabaseManager_load_conversations w)) + 1)"
    by (simp add: SupabaseManager_generate_conversation_name_def Let_def case_prod_beta
          load_conversations_result_called)
  have "str_nat (Suc 0) = ''1''" "str_nat (Suc (Suc 0)) = ''2''"
    by (simp_all add: str_nat.simps digit_char_def)
  with name show ?thesis by simp
qed

theorem generate_conversation_name_placeholder_witness:
  "length (fst (SupabaseManager_load_conversations world_new_chat)) = 0
   \<and> fst (SupabaseManager_generate_conversation_name None world_new_chat) = ''New Chat 1''
   \<and> length (fst (SupabaseManager_load_conversations
                    (snd (SupabaseManager_create_conversation ''New Chat 1'' None
                            (snd (SupabaseManager_load_conversations world_new_chat)))))) = 1
   \<and> fst (SupabaseManager_generate_conversation_name None
            (snd (SupabaseManager_create_conversation ''New Chat 1'' None
                    (snd (SupabaseManager_load_conversations world_new_chat))))) = ''New Chat 2''"
proof -
  define w' where "w' = snd (SupabaseManager_create_conversation ''New Chat 1'' None
                               (snd (SupabaseManager_load_conversations world_new_chat)))"
  have a: "length (fst (SupabaseManager_load_conversations world_new_chat)) = 0"
    by (simp add: example_defs adapter_defs Let_def)
  have b: "length (fst (SupabaseManager_load_conversations w')) = 1"
    by (simp add: w'_def example_defs adapter_defs Let_def)
  have c: "fst (SupabaseManager_generate_conversation_name None world_new_chat) = ''New Chat 1''"
    using a generate_conversation_name_placeholder [of world_new_chat] by blast
  have d: "fst (SupabaseManager_generate_conversation_name None w') = ''New Chat 2''"
    using b generate_conversation_name_placeholder [of w'] by blast
  from a b c d show ?thesis unfolding w'_def by blast
qed

section \<open>Creating, switching and deleting conversations\<close>

text \<open>
  C9. If the adapter's \<^verbatim>\<open>create_conversation\<close> returns no record (the backend is
  unavailable, the insert raises, or it returns no row), \<^verbatim>\<open>create_new_conversation\<close>
  leaves the whole session state as it was: the current conversation id, the chat history,
  the rename flag and the cached conversation list keep their values.
\<close>

theorem create_new_conversation_failure_leaves_session:
  assumes "fst (SupabaseManager_create_conversation
                  (fst (SupabaseManager_generate_conversation_name None w)) None
                  (snd (SupabaseManager_generate_conversation_name None w))) = None"
  shows "st (create_new_conversation first_message w) = st w
       \<and> current_conversation_id (st (create_new_conversation first_message w)) =
           current_conversation_id (st w)
       \<and> chat_history (st (create_new_conversation first_message w)) = chat_history (st w)
       \<and> needs_name_update (st (create_new_conversation first_message w)) =
           needs_name_update (st w)
       \<and> conversations (st (create_new_conversation first_message w)) = conversations (st w)"
  using assms by (simp add: create_new_conversation_def case_prod_beta)

theorem create_new_conversation_failure_leaves_session_witness:
  "fst (SupabaseManager_create_conversation
          (fst (SupabaseManager_generate_conversation_name None world_insert_fails)) None
          (snd (SupabaseManager_generate_conversation_name None world_insert_fails))) = None
   \<and> current_conversation_id (st (create_new_conversation None world_insert_fails)) =
        Some ''c1''
   \<and> chat_history (st (create_new_conversation None world_insert_fails)) =
        [\<lparr>role = ''user'', content = ''Hello''\<rparr>]
   \<and> \<not> needs_name_update (st (create_new_conversation None world_insert_fails))
   \<and> conversations (st (create_new_conversation None world_insert_fails)) = []"
proof -
  have h: "fst (SupabaseManager_create_conversation
          (fst (SupabaseManager_generate_conversation_name None world_insert_fails)) None
          (snd (SupabaseManager_generate_conversation_name None world_insert_fails))) = None"
    by (simp add: example_defs adapter_defs Let_def)
  from h create_new_conversation_failure_leaves_session [OF h, of None] show ?thesis
    by (simp add: example_defs)
qed

text \<open>
  C10. If the adapter's \<^verbatim>\<open>load_conversation\<close> returns no result (no such id, a backend
  error, or no backend), the controller's \<^verbatim>\<open>load_conversation\<close> leaves the current
  conversation id and the chat history, and the rest of the session state, unchanged; when
  it returns a record, and only then, the two are replaced by the requested id and the
  history of the record.
\<close>

theorem load_conversation_failure_leaves_session:
  "(fst (SupabaseManager_load_conversation conversation_id w) = None \<longrightarrow>
      st (load_conversation conversation_id w) = st w
    \<and> current_conversation_id (st (load_conversation conversation_id w)) =
        current_conversation_id (st w)
    \<and> chat_history (st (load_conversation conversation_id w)) = chat_history (st w))
   \<and> (\<forall>r. fst (SupabaseManager_load_conversation conversation_id w) = Some r \<longrightarrow>
        st (load_conversation conversation_id w) =
          (st w)\<lparr>current_conversation_id := Some conversation_id,
                  chat_history := row_chat_history r\<rparr>)"
  by (simp add: load_conversation_def case_prod_beta)

theorem load_conversation_failure_leaves_session_witness:
  "fst (SupabaseManager_load_conversation ''c2'' world_insert_fails) = None
   \<and> current_conversation_id (st (load_conversation ''c2'' world_insert_fails)) = Some ''c1''
   \<and> chat_history (st (load_conversation ''c2'' world_insert_fails)) =
        [\<lparr>role = ''user'', content = ''Hello''\<rparr>]
   \<and> fst (SupabaseManager_load_conversation ''c1'' world_new_chat) = None
   \<and> fst (SupabaseManager_load_conversation ''c1''
            (snd (SupabaseManager_load_conversation ''c1'' world_new_chat))) =
        Some \<lparr>row_id = ''c1'', row_name = ''New Chat 1'', row_chat_history = []\<rparr>
   \<and> current_conversation_id
        (st (load_conversation ''c1''
               (snd (SupabaseManager_load_conversation ''c1'' world_new_chat)))) = Some ''c1''"
proof -
  define w' where "w' = snd (SupabaseManager_load_conversation ''c1'' world_new_chat)"
  have h: "fst (SupabaseManager_load_conversation ''c2'' world_insert_fails) = None"
    and i: "fst (SupabaseManager_load_conversation ''c1'' world_new_chat) = None"
    by (simp_all add: example_defs adapter_defs Let_def)
  have j: "fst (SupabaseManager_load_conversation ''c1'' w') =
        Some \<lparr>row_id = ''c1'', row_name = ''New Chat 1'', row_chat_history = []\<rparr>"
    by (simp add: w'_def example_defs adapter_defs Let_def)
  have k: "current_conversation_id (st world_insert_fails) = Some ''c1''"
    "chat_history (st world_insert_fails) = [\<lparr>role = ''user'', content = ''Hello''\<rparr>]"
    by (simp_all add: example_defs)
  from h i j k load_conversation_failure_leaves_session [of "''c2''" world_insert_fails]
    load_conversation_failure_leaves_session [of "''c1''" w']
  show ?thesis by (simp add: w'_def)
qed

text \<open>
  C6 (amended). When the adapter's \<^verbatim>\<open>delete_conversation\<close> succeeds, the controller's
  \<^verbatim>\<open>delete_conversation\<close> of the active conversation resets the session to empty (no
  current conversation id, empty chat history), and in every successful case it then asks
  the adapter for the conversation list and caches the answer. When the adapter's delete
  fails (no backend, or the request raises), the session state is unchanged and the list
  is not asked for.
\<close>

theorem delete_conversation_effect:
  "(fst (SupabaseManager_delete_conversation conversation_id w) \<longrightarrow>
      (current_conversation_id (st w) = Some conversation_id \<longrightarrow>
         current_conversation_id (st (delete_conversation conversation_id w)) = None
       \<and> chat_history (st (delete_conversation conversation_id w)) = [])
    \<and> conversations (st (delete_conversation conversation_id w)) =
        fst (SupabaseManager_load_conversations
               (snd (SupabaseManager_delete_conversation conversation_id w)))
    \<and> calls (delete_conversation conversation_id w) =
        calls w @ [DeleteConversation conversation_id, LoadConversations])
   \<and> (\<not> fst (SupabaseManager_delete_conversation conversation_id w) \<longrightarrow>
        st (delete_conversation conversation_id w) = st w
      \<and> calls (delete_conversation conversation_id w) =
          calls w @ [DeleteConversation conversation_id])"
  by (simp add: delete_conversation_def case_prod_beta load_conversations_result_cong)

theorem delete_conversation_effect_witness:
  "fst (SupabaseManager_delete_conversation ''c1'' world_insert_fails)
   \<and> current_conversation_id (st world_insert_fails) = Some ''c1''
   \<and> current_conversation_id (st (delete_conversation ''c1'' world_insert_fails)) = None
   \<and> chat_history (st (delete_conversation ''c1'' world_insert_fails)) = []
   \<and> calls (delete_conversation ''c1'' world_insert_fails) =
        [DeleteConversation ''c1'', LoadConversations]
   \<and> \<not> fst (SupabaseManager_delete_conversation ''c1'' world_backend_down)
   \<and> st (delete_conversation ''c1'' world_backend_down) = st world_backend_down"
proof -
  have h: "fst (SupabaseManager_delete_conversation ''c1'' world_insert_fails)"
    by (simp add: example_defs adapter_defs Let_def)
  have i: "current_conversation_id (st world_insert_fails) = Some ''c1''"
    by (simp add: example_defs)
  have j: "\<not> fst (SupabaseManager_delete_conversation ''c1'' world_backend_down)"
    by (simp add: example_defs adapter_defs Let_def)
  have k: "calls world_insert_fails = []" by (simp add: example_defs)
  from h i j k delete_conversation_effect [of "''c1''" world_insert_fails]
    delete_conversation_effect [of "''c1''" world_backend_down]
  show ?thesis by simp
qed

text \<open>
  The claim as written fails when the backend rejects the delete: the active conversation
  \<open>c1\<close> stays active with its history, and \<^verbatim>\<open>load_conversations\<close> is never called.
\<close>

theorem delete_conversation_failure_changes_nothing:
  "current_conversation_id (st world_backend_down) = Some ''c1''
   \<and> current_conversation_id (st (delete_conversation ''c1'' world_backend_down)) = Some ''c1''
   \<and> chat_history (st (delete_conversation ''c1'' world_backend_down)) =
        [\<lparr>role = ''user'', content = ''Hello''\<rparr>]
   \<and> calls (delete_conversation ''c1'' world_backend_down) = [DeleteConversation ''c1'']
   \<and> requests (delete_conversation ''c1'' world_backend_down) = [Delete ''c1'']"
  by (simp add: example_defs controller_defs adapter_defs Let_def)

section \<open>Persisting the history after an append\<close>

text \<open>
  Where the current conversation id comes from. The controller assigns it in three places:
  \<^verbatim>\<open>create_new_conversation\<close> takes the id of the row that the backend returned for the
  insert, \<^verbatim>\<open>load_conversation\<close> takes the id it was asked for, and
  \<^verbatim>\<open>delete_conversation\<close> resets it. A message is therefore appended either with no
  current conversation or with the id of a backend row.
\<close>

lemma create_conversation_row_origin:
  assumes "fst (SupabaseManager_create_conversation name hist w) = Some r"
  shows "\<exists>n rs. db_answers w n = Data (r # rs)"
  using assms
  by (auto simp add: SupabaseManager_create_conversation_def execute_def called_def Let_def
        split: if_splits db_answer.splits list.splits)

lemma create_new_conversation_id_origin:
  "current_conversation_id (st (create_new_conversation fm w)) = current_conversation_id (st w)
   \<or> (\<exists>n r rs. db_answers w n = Data (r # rs)
         \<and> current_conversation_id (st (create_new_conversation fm w)) = Some (row_id r))"
proof (cases "fst (SupabaseManager_create_conversation
                  (fst (SupabaseManager_generate_conversation_name None w)) None
                  (snd (SupabaseManager_generate_conversation_name None w)))")
  case None
  then show ?thesis by (simp add: create_new_conversation_def case_prod_beta)
next
  case (Some r)
  from create_conversation_row_origin [OF Some]
  obtain n rs where "db_answers w n = Data (r # rs)" by auto
  moreover from Some
  have "current_conversation_id (st (create_new_conversation fm w)) = Some (row_id r)"
    by (simp add: create_new_conversation_def case_prod_beta)
  ultimately show ?thesis by blast
qed

lemma load_conversation_id_origin:
  "current_conversation_id (st (load_conversation conversation_id w)) =
     current_conversation_id (st w)
   \<or> current_conversation_id (st (load_conversation conversation_id w)) = Some conversation_id"
  by (simp add: load_conversation_def case_prod_beta split: option.splits)

lemma delete_conversation_id_origin:
  "current_conversation_id (st (delete_conversation conversation_id w)) =
     current_conversation_id (st w)
   \<or> current_conversation_id (st (delete_conversation conversation_id w)) = None"
  by (simp add: delete_conversation_def case_prod_beta)

lemma handle_user_input_id_origin:
  "current_conversation_id (st (handle_user_input prompt w)) = current_conversation_id (st w)
   \<or> (\<exists>n r rs. db_answers w n = Data (r # rs)
         \<and> current_conversation_id (st (handle_user_input prompt w)) = Some (row_id r))"
proof -
  have "current_conversation_id (st (handle_user_input prompt w)) =
          current_conversation_id (st w)
        \<or> current_conversation_id (st (handle_user_input prompt w)) =
          current_conversation_id (st (create_new_conversation None w))"
    by (simp add: handle_user_input_def Let_def case_prod_beta split: option.splits)
  with create_new_conversation_id_origin [of None w] show ?thesis by metis
qed



end
